theory Spec2Isabelle
  imports Complex_Main
begin

section \<open>Lab 5.5: model refinement notebook (week5/lab_5_5_model_refinement_instructor.py)\<close>

text \<open>
  The notebook is a linear script with two helper functions,
  \<^verbatim>\<open>load_or_create_demo_data\<close> and \<^verbatim>\<open>safe_load_model\<close>, and six code cells.
  Everything else it calls belongs to numpy, joblib and scikit-learn. Those calls are
  not part of the repository, so the embedding takes them as parameters: storage is
  described by what a read of each path returns, and the scikit-learn entry points are
  the fields of a record of functions over an uninterpreted type \<open>'o\<close> of Python
  objects. An exception is a value \<open>Inl e\<close>; a cell that raises stops the run.
  Console output (the \<^verbatim>\<open>print\<close> calls) is not modelled.
\<close>

subsection \<open>Exceptions\<close>

text \<open>
  The exception classes that matter to the two \<^verbatim>\<open>except\<close> clauses of the source.
  \<open>FileNotFoundError\<close> is the one class \<^verbatim>\<open>except FileNotFoundError\<close> catches;
  \<open>KeyboardInterrupt\<close> derives from \<^verbatim>\<open>BaseException\<close> only, so
  \<^verbatim>\<open>except Exception\<close> does not catch it; every other constructor is a subclass of
  \<^verbatim>\<open>Exception\<close> that is not a \<open>FileNotFoundError\<close>.
\<close>

datatype exn =
    FileNotFoundError
  | PermissionError
  | EOFError
  | UnpicklingError
  | ValueError
  | TypeError
  | AttributeError
  | KeyboardInterrupt

fun isinstance_Exception :: "exn \<Rightarrow> bool" where
  "isinstance_Exception KeyboardInterrupt = False"
| "isinstance_Exception _ = True"

definition and_then :: "exn + 'a \<Rightarrow> ('a \<Rightarrow> exn + 'b) \<Rightarrow> exn + 'b" where
  "and_then r k = (case r of Inl e \<Rightarrow> Inl e | Inr v \<Rightarrow> k v)"

subsection \<open>Storage\<close>

text \<open>
  A storage state gives, for every path, what reading that path returns: the stored
  object, or the exception the read raises. A path with no file is one whose read
  raises \<open>FileNotFoundError\<close>; a file that is present but malformed is one whose read
  raises anything else. Each path of the notebook is read by one loader only
  (\<^verbatim>\<open>np.load\<close> for the two feature files, \<^verbatim>\<open>joblib.load\<close> for the rest), so one
  table serves both. \<^verbatim>\<open>joblib.dump\<close> replaces what a later read of the path returns
  and is recorded in the list of writes; the write itself is taken to succeed.
\<close>

type_synonym path = string

record 'o world =
  files :: "path \<Rightarrow> exn + 'o"
  writes :: "(path \<times> 'o) list"

definition np_load :: "'o world \<Rightarrow> path \<Rightarrow> exn + 'o" where
  "np_load w p = files w p"

definition joblib_load :: "'o world \<Rightarrow> path \<Rightarrow> exn + 'o" where
  "joblib_load w p = files w p"

definition joblib_dump :: "'o \<Rightarrow> path \<Rightarrow> 'o world \<Rightarrow> 'o world" where
  "joblib_dump v p w = w\<lparr>files := (files w)(p := Inr v), writes := writes w @ [(p, v)]\<rparr>"

definition absent :: "'o world \<Rightarrow> path \<Rightarrow> bool" where
  "absent w p = (files w p = Inl FileNotFoundError)"

definition malformed :: "'o world \<Rightarrow> path \<Rightarrow> bool" where
  "malformed w p = (case files w p of Inl e \<Rightarrow> e \<noteq> FileNotFoundError | Inr v \<Rightarrow> False)"

definition path_join :: "path \<Rightarrow> string \<Rightarrow> path" where
  "path_join base name = base @ ''/'' @ name"

definition base_path :: path where
  "base_path = ''/dbfs/FileStore''"

definition X_train_path :: path where
  "X_train_path = path_join base_path ''X_train_transformed.npy''"

definition X_test_path :: path where
  "X_test_path = path_join base_path ''X_test_transformed.npy''"

definition y_train_path :: path where
  "y_train_path = path_join base_path ''y_train.pkl''"

definition y_test_path :: path where
  "y_test_path = path_join base_path ''y_test.pkl''"

definition best_model_path :: path where
  "best_model_path = ''/dbfs/FileStore/stedi_best_model.pkl''"

subsection \<open>The scikit-learn interface\<close>

text \<open>
  Keyword arguments are record fields. Floats that the script writes as literals
  (\<^verbatim>\<open>0.2\<close>, \<^verbatim>\<open>0.55\<close>) are rationals. A \<^verbatim>\<open>random_state\<close> argument is \<open>Some n\<close> for
  an integer seed and \<open>None\<close> for Python's \<^verbatim>\<open>None\<close>; the two randomised functions
  also receive the state of numpy's process-wide generator, which is what they draw from
  when no seed is given. Accuracy is the exact fraction that the float returned by
  \<^verbatim>\<open>accuracy_score\<close> rounds; two accuracies over the same evaluation set compare
  as their fractions do. A score that is not a number is not represented.
\<close>

type_synonym rng_state = nat

record mc_args =
  n_samples :: nat
  n_features :: nat
  n_informative :: nat
  n_redundant :: nat
  n_classes :: nat
  weights :: "rat list"
  random_state :: "int option"

record 'o tts_args =
  test_size :: rat
  split_random_state :: "int option"
  stratify :: "'o option"

datatype param_value = PNone | PInt int | PFloat rat | PStr string

type_synonym param_grid = "(string \<times> param_value list) list"

record 'o gs_args =
  estimator :: 'o
  grid :: param_grid
  cv :: nat
  scoring :: string
  n_jobs :: int

text \<open>The attributes \<^verbatim>\<open>best_params_\<close>, \<^verbatim>\<open>best_score_\<close> and \<^verbatim>\<open>best_estimator_\<close> of a
  fitted search, written without the trailing underscore.\<close>

record 'o gs_fitted =
  best_params :: "(string \<times> param_value) list"
  best_score :: rat
  best_estimator :: 'o

record 'o sklearn =
  make_classification :: "mc_args \<Rightarrow> rng_state \<Rightarrow> 'o \<times> 'o"
  train_test_split :: "'o \<Rightarrow> 'o \<Rightarrow> 'o tts_args \<Rightarrow> rng_state \<Rightarrow> 'o \<times> 'o \<times> 'o \<times> 'o"
  len :: "'o \<Rightarrow> nat"
  RandomForestClassifier :: "int \<Rightarrow> 'o"
  LogisticRegression :: "nat \<Rightarrow> 'o"
  isinstance_RandomForestClassifier :: "'o \<Rightarrow> bool"
  hasattr :: "'o \<Rightarrow> string \<Rightarrow> bool"
  fit :: "'o \<Rightarrow> 'o \<Rightarrow> 'o \<Rightarrow> exn + 'o"
  predict :: "'o \<Rightarrow> 'o \<Rightarrow> exn + 'o"
  accuracy_score :: "'o \<Rightarrow> 'o \<Rightarrow> exn + rat"
  GridSearchCV_fit :: "'o gs_args \<Rightarrow> 'o \<Rightarrow> 'o \<Rightarrow> exn + 'o gs_fitted"

subsection \<open>The helper functions\<close>

text \<open>The body of the \<^verbatim>\<open>try\<close> block of \<^verbatim>\<open>load_or_create_demo_data\<close>: four reads in
  the source's order, the first failure ending the block.\<close>

definition load_transformed :: "'o world \<Rightarrow> exn + ('o \<times> 'o \<times> 'o \<times> 'o)" where
  "load_transformed w =
     and_then (np_load w X_train_path) (\<lambda>X_train.
     and_then (np_load w X_test_path) (\<lambda>X_test.
     and_then (joblib_load w y_train_path) (\<lambda>y_train.
     and_then (joblib_load w y_test_path) (\<lambda>y_test.
       Inr (X_train, X_test, y_train, y_test)))))"

text \<open>The body of the \<^verbatim>\<open>except FileNotFoundError\<close> handler. The parameter
  \<^verbatim>\<open>random_state\<close> of the source is \<open>seed\<close> here, \<open>random_state\<close> being the name
  of the keyword argument it is passed as.\<close>

definition create_synthetic :: "'o sklearn \<Rightarrow> rng_state \<Rightarrow> int \<Rightarrow> 'o \<times> 'o \<times> 'o \<times> 'o" where
  "create_synthetic lib g seed =
     (let (X, y) = make_classification lib
            \<lparr>n_samples = 400, n_features = 10, n_informative = 6, n_redundant = 2,
             n_classes = 2, weights = [55 / 100, 45 / 100], random_state = Some seed\<rparr> g
      in train_test_split lib X y
            \<lparr>test_size = 2 / 10, split_random_state = Some seed, stratify = Some y\<rparr> g)"

definition load_or_create_demo_data ::
  "'o sklearn \<Rightarrow> 'o world \<Rightarrow> rng_state \<Rightarrow> int \<Rightarrow> exn + ('o \<times> 'o \<times> 'o \<times> 'o)" where
  "load_or_create_demo_data lib w g seed =
     (case load_transformed w of
        Inr loaded \<Rightarrow> Inr loaded
      | Inl e \<Rightarrow> if e = FileNotFoundError then Inr (create_synthetic lib g seed) else Inl e)"

definition safe_load_model :: "'o world \<Rightarrow> path \<Rightarrow> 'o \<Rightarrow> exn + 'o" where
  "safe_load_model w p default_model =
     (case joblib_load w p of
        Inr model \<Rightarrow> Inr model
      | Inl exc \<Rightarrow> if isinstance_Exception exc then Inr default_model else Inl exc)"

subsection \<open>The code cells\<close>

text \<open>\<^verbatim>\<open>accuracy_score(y, model.predict(X))\<close>, the expression every accuracy of the
  notebook is computed by.\<close>

definition score :: "'o sklearn \<Rightarrow> 'o \<Rightarrow> 'o \<Rightarrow> 'o \<Rightarrow> exn + rat" where
  "score lib model X y = and_then (predict lib model X) (\<lambda>predicted. accuracy_score lib y predicted)"

text \<open>Lines 103 to 104: the guard that fits a model which is a random forest without
  the attribute \<^verbatim>\<open>feature_importances_\<close>. \<^verbatim>\<open>fit\<close> changes the object in place; here
  it returns the changed object.\<close>

definition fit_if_fresh :: "'o sklearn \<Rightarrow> 'o \<Rightarrow> 'o \<Rightarrow> 'o \<Rightarrow> exn + 'o" where
  "fit_if_fresh lib old_model X_train y_train =
     (if \<not> hasattr lib old_model ''feature_importances_''
         \<and> isinstance_RandomForestClassifier lib old_model
      then fit lib old_model X_train y_train
      else Inr old_model)"

record 'o variables =
  X_train :: 'o
  X_test :: 'o
  y_train :: 'o
  y_test :: 'o
  old_model :: 'o
  train_acc :: rat
  test_acc :: rat

text \<open>Lines 107 to 108: the baseline accuracies of the model the guard leaves.\<close>

definition baseline ::
  "'o sklearn \<Rightarrow> 'o \<times> 'o \<times> 'o \<times> 'o \<Rightarrow> 'o \<Rightarrow> exn + 'o variables" where
  "baseline lib d model =
     (case d of (Xtr, Xte, ytr, yte) \<Rightarrow>
        and_then (score lib model Xtr ytr) (\<lambda>tr.
        and_then (score lib model Xte yte) (\<lambda>te.
          Inr \<lparr>X_train = Xtr, X_test = Xte, y_train = ytr, y_test = yte,
               old_model = model, train_acc = tr, test_acc = te\<rparr>)))"

text \<open>Section 1 (lines 96 to 108). \<^verbatim>\<open>load_or_create_demo_data()\<close> is called with its
  default seed 42.\<close>

definition section_1 :: "'o sklearn \<Rightarrow> 'o world \<Rightarrow> rng_state \<Rightarrow> exn + 'o variables" where
  "section_1 lib w g =
     and_then (load_or_create_demo_data lib w g 42) (\<lambda>d.
     and_then (safe_load_model w best_model_path (RandomForestClassifier lib 42)) (\<lambda>loaded.
     and_then (fit_if_fresh lib loaded (fst d) (fst (snd (snd d)))) (\<lambda>model.
       baseline lib d model)))"

text \<open>Section 3 (lines 150 to 160): the two grids.\<close>

definition rf_param_grid :: param_grid where
  "rf_param_grid =
     [(''n_estimators'', [PInt 100, PInt 200]),
      (''max_depth'', [PNone, PInt 10, PInt 20]),
      (''min_samples_leaf'', [PInt 1, PInt 2, PInt 4])]"

definition log_reg_param_grid :: param_grid where
  "log_reg_param_grid =
     [(''C'', [PFloat (1 / 10), PInt 1, PInt 5, PInt 10]),
      (''penalty'', [PStr ''l2'']),
      (''solver'', [PStr ''lbfgs''])]"

text \<open>Section 4 (lines 177 to 204): the two searches, each fitted on the training
  partition. Neither call stands in a \<^verbatim>\<open>try\<close> block.\<close>

definition rf_grid_search :: "'o sklearn \<Rightarrow> 'o \<Rightarrow> 'o \<Rightarrow> exn + 'o gs_fitted" where
  "rf_grid_search lib Xtr ytr =
     GridSearchCV_fit lib
       \<lparr>estimator = RandomForestClassifier lib 42, grid = rf_param_grid, cv = 3,
        scoring = ''accuracy'', n_jobs = - 1\<rparr> Xtr ytr"

definition log_reg_grid_search :: "'o sklearn \<Rightarrow> 'o \<Rightarrow> 'o \<Rightarrow> exn + 'o gs_fitted" where
  "log_reg_grid_search lib Xtr ytr =
     GridSearchCV_fit lib
       \<lparr>estimator = LogisticRegression lib 300, grid = log_reg_param_grid, cv = 3,
        scoring = ''accuracy'', n_jobs = - 1\<rparr> Xtr ytr"

text \<open>Section 5 (lines 216 to 217): the two test accuracies, the incumbent's first.\<close>

definition compare_models :: "'o sklearn \<Rightarrow> 'o \<Rightarrow> 'o \<Rightarrow> 'o \<Rightarrow> 'o \<Rightarrow> exn + rat \<times> rat" where
  "compare_models lib incumbent candidate Xte yte =
     and_then (score lib incumbent Xte yte) (\<lambda>old_test_acc.
     and_then (score lib candidate Xte yte) (\<lambda>new_test_acc.
       Inr (old_test_acc, new_test_acc)))"

text \<open>Section 6 (lines 236 to 240): the conditional overwrite.\<close>

definition save_best :: "rat \<Rightarrow> rat \<Rightarrow> 'o \<Rightarrow> 'o world \<Rightarrow> 'o world" where
  "save_best new_test_acc old_test_acc candidate w =
     (if new_test_acc \<ge> old_test_acc then joblib_dump candidate best_model_path w else w)"

text \<open>Sections 5 and 6 together, for an incumbent, a candidate and an evaluation set.\<close>

definition compare_and_save ::
  "'o sklearn \<Rightarrow> 'o world \<Rightarrow> 'o \<Rightarrow> 'o \<Rightarrow> 'o \<Rightarrow> 'o \<Rightarrow> exn + 'o world" where
  "compare_and_save lib w incumbent candidate Xte yte =
     and_then (compare_models lib incumbent candidate Xte yte) (\<lambda>accs.
       Inr (save_best (snd accs) (fst accs) candidate w))"

text \<open>Sections 4 to 6 after Section 1 has set the variables.\<close>

definition refine :: "'o sklearn \<Rightarrow> 'o world \<Rightarrow> 'o variables \<Rightarrow> exn + 'o world" where
  "refine lib w v =
     and_then (rf_grid_search lib (X_train v) (y_train v)) (\<lambda>rf.
     and_then (log_reg_grid_search lib (X_train v) (y_train v)) (\<lambda>log_reg.
       compare_and_save lib w (old_model v) (best_estimator rf) (X_test v) (y_test v)))"

text \<open>The whole notebook: the storage it leaves, or the exception that stopped it.\<close>

definition notebook :: "'o sklearn \<Rightarrow> 'o world \<Rightarrow> rng_state \<Rightarrow> exn + 'o world" where
  "notebook lib w g = and_then (section_1 lib w g) (\<lambda>v. refine lib w v)"

subsection \<open>Notions the properties are stated with\<close>

text \<open>The exception of the first read that fails, reading the paths in the given
  order; \<open>None\<close> when every read succeeds.\<close>

fun first_failure :: "'o world \<Rightarrow> path list \<Rightarrow> exn option" where
  "first_failure w [] = None"
| "first_failure w (p # ps) =
     (case files w p of Inl e \<Rightarrow> Some e | Inr v \<Rightarrow> first_failure w ps)"

definition dataset_paths :: "path list" where
  "dataset_paths = [X_train_path, X_test_path, y_train_path, y_test_path]"

text \<open>
  What the scikit-learn documentation promises and the properties below rely on, each
  as a predicate on the interface. A call with an integer \<^verbatim>\<open>random_state\<close> draws
  from a generator of its own, so its result does not depend on the process-wide one.
  \<^verbatim>\<open>make_classification\<close> returns \<^verbatim>\<open>n_samples\<close> rows and as many labels;
  \<^verbatim>\<open>train_test_split\<close> with a fractional \<^verbatim>\<open>test_size\<close> and no \<^verbatim>\<open>train_size\<close> puts
  the ceiling of \<^verbatim>\<open>test_size * n\<close> samples in the test part and the rest in the
  training part. A search whose training set has fewer samples than folds raises
  \<open>ValueError\<close>. A random forest has the attribute \<^verbatim>\<open>feature_importances_\<close> exactly
  when it has been fitted (\<open>trained\<close> says which objects have been), and the constructor
  returns a forest that has not.
\<close>

definition seeded_calls_reproducible :: "'o sklearn \<Rightarrow> bool" where
  "seeded_calls_reproducible lib =
     ((\<forall>a g g'. random_state a \<noteq> None \<longrightarrow>
          make_classification lib a g = make_classification lib a g')
      \<and> (\<forall>X y a g g'. split_random_state a \<noteq> None \<longrightarrow>
          train_test_split lib X y a g = train_test_split lib X y a g'))"



definition forest_attribute :: "'o sklearn \<Rightarrow> ('o \<Rightarrow> bool) \<Rightarrow> bool" where
  "forest_attribute lib trained =
     ((\<forall>m. isinstance_RandomForestClassifier lib m \<longrightarrow>
           (hasattr lib m ''feature_importances_'' \<longleftrightarrow> trained m))
      \<and> (\<forall>s. isinstance_RandomForestClassifier lib (RandomForestClassifier lib s)
             \<and> \<not> trained (RandomForestClassifier lib s)))"

subsection \<open>A small instance of the interface\<close>

text \<open>
  A concrete universe of objects and a concrete library over it, on which the notebook
  can be run: an array is a list of integers (one per sample), a forest is fitted once
  it holds the class it predicts, and accuracy is the fraction of equal positions.
\<close>

datatype pyobj = Array "int list" | Forest int "int option" | Linear nat | NoneType

fun items :: "pyobj \<Rightarrow> int list" where
  "items (Array xs) = xs"
| "items _ = []"

definition demo_make_classification :: "mc_args \<Rightarrow> rng_state \<Rightarrow> pyobj \<times> pyobj" where
  "demo_make_classification a g =
     (let s = (case random_state a of Some n \<Rightarrow> n | None \<Rightarrow> int g)
      in (Array (replicate (n_samples a) s),
          Array (map (\<lambda>i. (int i + s) mod int (n_classes a)) [0..<n_samples a])))"

definition demo_train_test_split ::
  "pyobj \<Rightarrow> pyobj \<Rightarrow> pyobj tts_args \<Rightarrow> rng_state \<Rightarrow> pyobj \<times> pyobj \<times> pyobj \<times> pyobj" where
  "demo_train_test_split X y a g =
     (let n = length (items X);
          n_test = nat \<lceil>test_size a * of_nat n\<rceil>;
          r = (case split_random_state a of Some n \<Rightarrow> 0 | None \<Rightarrow> g);
          xs = rotate r (items X);
          ys = rotate r (items y)
      in (Array (take (n - n_test) xs), Array (drop (n - n_test) xs),
          Array (take (n - n_test) ys), Array (drop (n - n_test) ys)))"

fun demo_fit :: "pyobj \<Rightarrow> pyobj \<Rightarrow> pyobj \<Rightarrow> exn + pyobj" where
  "demo_fit (Forest s t) X y = (case items y of [] \<Rightarrow> Inl ValueError | c # cs \<Rightarrow> Inr (Forest s (Some c)))"
| "demo_fit (Linear k) X y = (case items y of [] \<Rightarrow> Inl ValueError | c # cs \<Rightarrow> Inr (Linear k))"
| "demo_fit m X y = Inl AttributeError"

fun demo_predict :: "pyobj \<Rightarrow> pyobj \<Rightarrow> exn + pyobj" where
  "demo_predict (Forest s (Some c)) X = Inr (Array (map (\<lambda>x. c) (items X)))"
| "demo_predict (Forest s None) X = Inl AttributeError"
| "demo_predict (Linear k) X = Inr (Array (items X))"
| "demo_predict m X = Inl AttributeError"

definition demo_accuracy_score :: "pyobj \<Rightarrow> pyobj \<Rightarrow> exn + rat" where
  "demo_accuracy_score y p =
     (if items y = [] \<or> length (items y) \<noteq> length (items p) then Inl ValueError
      else Inr (of_nat (length (filter (\<lambda>(a, b). a = b) (zip (items y) (items p))))
                / of_nat (length (items y))))"

fun demo_hasattr :: "pyobj \<Rightarrow> string \<Rightarrow> bool" where
  "demo_hasattr (Forest s (Some c)) a = (a = ''feature_importances_'')"
| "demo_hasattr m a = False"

fun demo_is_forest :: "pyobj \<Rightarrow> bool" where
  "demo_is_forest (Forest s t) = True"
| "demo_is_forest m = False"

definition demo_search :: "pyobj gs_args \<Rightarrow> pyobj \<Rightarrow> pyobj \<Rightarrow> exn + pyobj gs_fitted" where
  "demo_search a X y =
     (if length (items X) < cv a \<or> grid a = [] then Inl ValueError
      else and_then (demo_fit (estimator a) X y) (\<lambda>m.
             Inr \<lparr>best_params = map (\<lambda>(k, vs). (k, hd vs)) (grid a), best_score = 1,
                  best_estimator = m\<rparr>))"

definition demo_lib :: "pyobj sklearn" where
  "demo_lib =
     \<lparr>make_classification = demo_make_classification,
      train_test_split = demo_train_test_split,
      len = (\<lambda>v. length (items v)),
      RandomForestClassifier = (\<lambda>s. Forest s None),
      LogisticRegression = Linear,
      isinstance_RandomForestClassifier = demo_is_forest,
      hasattr = demo_hasattr,
      fit = demo_fit,
      predict = demo_predict,
      accuracy_score = demo_accuracy_score,
      GridSearchCV_fit = demo_search\<rparr>"

definition demo_world :: "(path \<Rightarrow> exn + pyobj) \<Rightarrow> pyobj world" where
  "demo_world f = \<lparr>files = f, writes = []\<rparr>"

fun demo_trained :: "pyobj \<Rightarrow> bool" where
  "demo_trained (Forest s None) = False"
| "demo_trained m = True"

text \<open>A storage state with the four dataset files present: three training samples
  and two test samples.\<close>

definition demo_files :: "path \<Rightarrow> exn + pyobj" where
  "demo_files =
     (\<lambda>p. Inl FileNotFoundError)
       (X_train_path := Inr (Array [1, 2, 3]), X_test_path := Inr (Array [4, 5]),
        y_train_path := Inr (Array [0, 1, 1]), y_test_path := Inr (Array [0, 1]))"

section \<open>Properties\<close>

subsection \<open>Auxiliary facts\<close>

lemma load_transformed_failure:
  "load_transformed w = Inl e \<longleftrightarrow> first_failure w dataset_paths = Some e"
  by (simp add: load_transformed_def dataset_paths_def and_then_def np_load_def
      joblib_load_def split: sum.splits)

lemma load_transformed_success:
  "load_transformed w = Inr q \<longleftrightarrow>
     files w X_train_path = Inr (fst q) \<and> files w X_test_path = Inr (fst (snd q)) \<and>
     files w y_train_path = Inr (fst (snd (snd q))) \<and>
     files w y_test_path = Inr (snd (snd (snd q)))"
  by (cases q) (auto simp add: load_transformed_def and_then_def np_load_def
      joblib_load_def split: sum.splits)

lemma first_failure_dataset:
  "first_failure w dataset_paths = Some e \<Longrightarrow>
     load_or_create_demo_data lib w g seed =
       (if e = FileNotFoundError then Inr (create_synthetic lib g seed) else Inl e)"
  by (simp add: load_or_create_demo_data_def load_transformed_failure [symmetric])

lemma demo_seeded: "seeded_calls_reproducible demo_lib"
  by (auto simp add: seeded_calls_reproducible_def demo_lib_def demo_make_classification_def
      demo_train_test_split_def)




lemma paths_distinct:
  "distinct [X_train_path, X_test_path, y_train_path, y_test_path, best_model_path]"
  by (simp add: X_train_path_def X_test_path_def y_train_path_def y_test_path_def
      best_model_path_def base_path_def path_join_def)

lemma demo_files_loaded:
  "load_or_create_demo_data demo_lib (demo_world (demo_files(best_model_path := r))) g 42
     = Inr (Array [1, 2, 3], Array [4, 5], Array [0, 1, 1], Array [0, 1])"
  using paths_distinct
  by (simp add: load_or_create_demo_data_def load_transformed_def and_then_def np_load_def
      joblib_load_def demo_world_def demo_files_def)

lemma demo_forest_attribute: "forest_attribute demo_lib demo_trained"
proof -
  have "demo_is_forest m \<Longrightarrow> demo_hasattr m ''feature_importances_'' = demo_trained m"
    for m
  proof (cases m)
    case (Forest s t)
    then show ?thesis by (cases t) simp_all
  qed simp_all
  then show ?thesis
    by (simp add: forest_attribute_def demo_lib_def)
qed

lemma demo_scores:
  "score demo_lib (Forest 7 (Some 1)) (Array [4, 5]) (Array [0, 1]) = Inr (1 / 2)"
  "score demo_lib (Forest 42 (Some 0)) (Array [4, 5]) (Array [0, 1]) = Inr (1 / 2)"
  "score demo_lib (Forest 7 (Some 1)) (Array [1, 2, 3]) (Array [0, 1, 1]) = Inr (2 / 3)"
  "score demo_lib (Forest 42 (Some 0)) (Array [1, 2, 3]) (Array [0, 1, 1]) = Inr (1 / 3)"
  by (simp_all add: score_def demo_lib_def and_then_def demo_accuracy_score_def)

lemma compare_and_save_returns:
  assumes "compare_and_save lib w incumbent candidate Xte yte = Inr w'"
  shows "\<exists>a_old a_new. score lib incumbent Xte yte = Inr a_old
           \<and> score lib candidate Xte yte = Inr a_new
           \<and> w' = save_best a_new a_old candidate w"
  using assms
  by (auto simp add: compare_and_save_def compare_models_def and_then_def split: sum.splits)

lemma save_best_cases:
  "(a_old \<le> a_new \<and> files (save_best a_new a_old candidate w)
        = (files w)(best_model_path := Inr candidate))
   \<or> (a_new < a_old \<and> save_best a_new a_old candidate w = w)"
  by (simp add: save_best_def joblib_dump_def not_le)

lemma notebook_returns:
  assumes "notebook lib w g = Inr w'"
  shows "\<exists>v rf. section_1 lib w g = Inr v
           \<and> rf_grid_search lib (X_train v) (y_train v) = Inr rf
           \<and> compare_and_save lib w (old_model v) (best_estimator rf) (X_test v) (y_test v)
               = Inr w'"
  using assms
  by (auto simp add: notebook_def refine_def and_then_def split: sum.splits)

subsection \<open>Conditional persistence\<close>



text \<open>
  C3. After a run of Sections 5 and 6 that returns, the storage is either unchanged, or
  it differs only at the best-model path, which now holds a candidate whose test
  accuracy is at least the incumbent's; when the path held the incumbent before, the
  model it holds afterwards scores at least what the incumbent scores. The same holds
  of a whole run of the notebook, whose incumbent is the model Section 1 resolved and
  whose candidate is the refit estimator of the random-forest search.
\<close>

theorem overwrite_never_regresses:
  "(compare_and_save lib w incumbent candidate Xte yte = Inr w' \<longrightarrow>
      (w' = w \<or>
        (\<exists>a_old a_new. score lib incumbent Xte yte = Inr a_old
           \<and> score lib candidate Xte yte = Inr a_new \<and> a_old \<le> a_new
           \<and> files w' = (files w)(best_model_path := Inr candidate)))
      \<and> (files w best_model_path = Inr incumbent \<longrightarrow>
            (\<exists>kept a_old a_kept. files w' best_model_path = Inr kept
               \<and> score lib incumbent Xte yte = Inr a_old
               \<and> score lib kept Xte yte = Inr a_kept \<and> a_old \<le> a_kept)))
   \<and> (notebook lib w g = Inr w'' \<longrightarrow>
      (w'' = w \<or>
        (\<exists>v rf a_old a_new. section_1 lib w g = Inr v
           \<and> rf_grid_search lib (X_train v) (y_train v) = Inr rf
           \<and> score lib (old_model v) (X_test v) (y_test v) = Inr a_old
           \<and> score lib (best_estimator rf) (X_test v) (y_test v) = Inr a_new
           \<and> a_old \<le> a_new
           \<and> files w'' = (files w)(best_model_path := Inr (best_estimator rf)))))"
proof -
  have step: "w' = w \<or>
        (\<exists>a_old a_new. score lib incumbent Xte yte = Inr a_old
           \<and> score lib candidate Xte yte = Inr a_new \<and> a_old \<le> a_new
           \<and> files w' = (files w)(best_model_path := Inr candidate))"
    if "compare_and_save lib w incumbent candidate Xte yte = Inr w'"
    for incumbent candidate Xte yte w'
  proof -
    from compare_and_save_returns [OF that] obtain a_old a_new
      where "score lib incumbent Xte yte = Inr a_old"
        and "score lib candidate Xte yte = Inr a_new"
        and "w' = save_best a_new a_old candidate w"
      by blast
    with save_best_cases [of a_old a_new candidate w] show ?thesis by auto
  qed
  have kept: "\<exists>kept a_old a_kept. files w' best_model_path = Inr kept
               \<and> score lib incumbent Xte yte = Inr a_old
               \<and> score lib kept Xte yte = Inr a_kept \<and> a_old \<le> a_kept"
    if run: "compare_and_save lib w incumbent candidate Xte yte = Inr w'"
      and held: "files w best_model_path = Inr incumbent"
  proof -
    from compare_and_save_returns [OF run] obtain a_old
      where old: "score lib incumbent Xte yte = Inr a_old" by blast
    from step [OF run] show ?thesis
    proof
      assume "w' = w"
      with held old show ?thesis by auto
    next
      assume "\<exists>a_old a_new. score lib incumbent Xte yte = Inr a_old
           \<and> score lib candidate Xte yte = Inr a_new \<and> a_old \<le> a_new
           \<and> files w' = (files w)(best_model_path := Inr candidate)"
      then show ?thesis by auto
    qed
  qed
  have whole: "w'' = w \<or>
        (\<exists>v rf a_old a_new. section_1 lib w g = Inr v
           \<and> rf_grid_search lib (X_train v) (y_train v) = Inr rf
           \<and> score lib (old_model v) (X_test v) (y_test v) = Inr a_old
           \<and> score lib (best_estimator rf) (X_test v) (y_test v) = Inr a_new
           \<and> a_old \<le> a_new
           \<and> files w'' = (files w)(best_model_path := Inr (best_estimator rf)))"
    if "notebook lib w g = Inr w''"
  proof -
    from notebook_returns [OF that] obtain v rf
      where v: "section_1 lib w g = Inr v"
        and rf: "rf_grid_search lib (X_train v) (y_train v) = Inr rf"
        and run: "compare_and_save lib w (old_model v) (best_estimator rf) (X_test v) (y_test v)
               = Inr w''"
      by blast
    from step [OF run] v rf show ?thesis by blast
  qed
  from step kept whole show ?thesis by blast
qed

theorem overwrite_never_regresses_witness:
  "files (demo_world (demo_files(best_model_path := Inr (Forest 7 (Some 1))))) best_model_path
     = Inr (Forest 7 (Some 1))
   \<and> compare_and_save demo_lib
        (demo_world (demo_files(best_model_path := Inr (Forest 7 (Some 1)))))
        (Forest 7 (Some 1)) (Forest 42 (Some 0)) (Array [4, 5]) (Array [0, 1])
      = Inr (joblib_dump (Forest 42 (Some 0)) best_model_path
          (demo_world (demo_files(best_model_path := Inr (Forest 7 (Some 1))))))
   \<and> (\<exists>kept a_old a_kept.
         files (joblib_dump (Forest 42 (Some 0)) best_model_path
           (demo_world (demo_files(best_model_path := Inr (Forest 7 (Some 1))))))
           best_model_path = Inr kept
         \<and> score demo_lib (Forest 7 (Some 1)) (Array [4, 5]) (Array [0, 1]) = Inr a_old
         \<and> score demo_lib kept (Array [4, 5]) (Array [0, 1]) = Inr a_kept
         \<and> a_old \<le> a_kept)"
proof -
  let ?w = "demo_world (demo_files(best_model_path := Inr (Forest 7 (Some 1))))"
  have held: "files ?w best_model_path = Inr (Forest 7 (Some 1))"
    by (simp add: demo_world_def)
  have run: "compare_and_save demo_lib ?w (Forest 7 (Some 1)) (Forest 42 (Some 0))
        (Array [4, 5]) (Array [0, 1])
      = Inr (joblib_dump (Forest 42 (Some 0)) best_model_path ?w)"
    by (simp add: compare_and_save_def compare_models_def demo_scores and_then_def
        save_best_def)
  from overwrite_never_regresses [where lib = demo_lib and w = ?w
      and incumbent = "Forest 7 (Some 1)" and candidate = "Forest 42 (Some 0)"
      and Xte = "Array [4, 5]" and yte = "Array [0, 1]"
      and w' = "joblib_dump (Forest 42 (Some 0)) best_model_path ?w"] held run
  show ?thesis by blast
qed

subsection \<open>Read failures\<close>

text \<open>
  Against C2 as it is worded: two storage states where a file is present but malformed
  and the loader falls back all the same: the model file cannot be unpickled and \<^verbatim>\<open>safe_load_model\<close> returns the
  default; the test features cannot be read, but the training features are absent and
  are read first, so \<^verbatim>\<open>load_or_create_demo_data\<close> returns the synthetic data.
\<close>

theorem malformed_yet_fallback:
  "malformed (demo_world (\<lambda>p. Inl UnpicklingError)) best_model_path
   \<and> safe_load_model (demo_world (\<lambda>p. Inl UnpicklingError)) best_model_path (Forest 42 None)
       = Inr (Forest 42 None)
   \<and> malformed (demo_world ((\<lambda>p. Inl FileNotFoundError)(X_test_path := Inl EOFError)))
      X_test_path
   \<and> load_or_create_demo_data demo_lib
      (demo_world ((\<lambda>p. Inl FileNotFoundError)(X_test_path := Inl EOFError))) 0 42
     = Inr (create_synthetic demo_lib 0 42)"
proof -
  have distinct: "X_train_path \<noteq> X_test_path"
    using paths_distinct by simp
  have model: "malformed (demo_world (\<lambda>p. Inl UnpicklingError)) best_model_path
   \<and> safe_load_model (demo_world (\<lambda>p. Inl UnpicklingError)) best_model_path (Forest 42 None)
       = Inr (Forest 42 None)"
    by (simp add: malformed_def demo_world_def safe_load_model_def joblib_load_def)
  have data: "malformed (demo_world ((\<lambda>p. Inl FileNotFoundError)(X_test_path := Inl EOFError)))
      X_test_path
   \<and> load_or_create_demo_data demo_lib
      (demo_world ((\<lambda>p. Inl FileNotFoundError)(X_test_path := Inl EOFError))) 0 42
     = Inr (create_synthetic demo_lib 0 42)"
    using distinct
    by (simp add: malformed_def demo_world_def load_or_create_demo_data_def
        load_transformed_def and_then_def np_load_def)
  from model data show ?thesis by simp
qed

text \<open>
  C2, as the code has it. The dataset loader raises the exception of the first read
  that fails, in the order training features, test features, training labels, test
  labels, unless that exception is \<open>FileNotFoundError\<close>, in which case it returns the
  synthetic data. The model loader returns the caller's default for every failure that
  is an \<^verbatim>\<open>Exception\<close>, a malformed file included, and raises only what is not one.
\<close>

theorem loaders_on_read_failure:
  "(first_failure w dataset_paths = Some e \<and> e \<noteq> FileNotFoundError
      \<longrightarrow> load_or_create_demo_data lib w g seed = Inl e)
   \<and> (first_failure w dataset_paths = Some FileNotFoundError
      \<longrightarrow> load_or_create_demo_data lib w g seed = Inr (create_synthetic lib g seed))
   \<and> (files w p = Inl e \<and> isinstance_Exception e
      \<longrightarrow> safe_load_model w p default_model = Inr default_model)
   \<and> (files w p = Inl e \<and> \<not> isinstance_Exception e
      \<longrightarrow> safe_load_model w p default_model = Inl e)"
  by (simp add: first_failure_dataset safe_load_model_def joblib_load_def)

theorem loaders_on_read_failure_witness:
  "first_failure
      (demo_world ((\<lambda>p. Inl FileNotFoundError)
         (X_train_path := Inr (Array [1, 2]), X_test_path := Inl EOFError)))
      dataset_paths = Some EOFError
   \<and> load_or_create_demo_data demo_lib
      (demo_world ((\<lambda>p. Inl FileNotFoundError)
         (X_train_path := Inr (Array [1, 2]), X_test_path := Inl EOFError))) 0 42
     = Inl EOFError
   \<and> safe_load_model
      (demo_world ((\<lambda>p. Inl FileNotFoundError)
         (X_train_path := Inr (Array [1, 2]), X_test_path := Inl EOFError)))
      X_test_path (Forest 42 None)
     = Inr (Forest 42 None)"
proof -
  let ?w = "demo_world ((\<lambda>p. Inl FileNotFoundError)
         (X_train_path := Inr (Array [1, 2]), X_test_path := Inl EOFError))"
  have distinct: "X_train_path \<noteq> X_test_path"
    by (simp add: X_train_path_def X_test_path_def path_join_def)
  have first: "first_failure ?w dataset_paths = Some EOFError"
    using distinct by (simp add: dataset_paths_def demo_world_def)
  have read: "files ?w X_test_path = Inl EOFError"
    by (simp add: demo_world_def)
  from loaders_on_read_failure [where w = ?w and e = EOFError and lib = demo_lib and g = 0
      and seed = 42 and p = X_test_path and default_model = "Forest 42 None"]
    first read
  show ?thesis by simp
qed

text \<open>
  C10. The dataset loader returns the four stored objects, or the synthetic quadruple,
  which is a function of the library, the generator state and the seed only, or it
  raises an exception other than \<open>FileNotFoundError\<close>. With both feature files present
  and the training labels absent it returns the synthetic quadruple: the two arrays
  already read are dropped.
\<close>

theorem bundle_all_or_nothing:
  "((\<exists>a b c d. files w X_train_path = Inr a \<and> files w X_test_path = Inr b
        \<and> files w y_train_path = Inr c \<and> files w y_test_path = Inr d
        \<and> load_or_create_demo_data lib w g seed = Inr (a, b, c, d))
    \<or> load_or_create_demo_data lib w g seed = Inr (create_synthetic lib g seed)
    \<or> (\<exists>e. e \<noteq> FileNotFoundError \<and> load_or_create_demo_data lib w g seed = Inl e))
   \<and> (files w X_train_path = Inr a' \<and> files w X_test_path = Inr b' \<and> absent w y_train_path
      \<longrightarrow> load_or_create_demo_data lib w g seed = Inr (create_synthetic lib g seed))"
proof -
  have part: "files w X_train_path = Inr a' \<and> files w X_test_path = Inr b'
      \<and> absent w y_train_path
      \<longrightarrow> load_or_create_demo_data lib w g seed = Inr (create_synthetic lib g seed)"
    by (simp add: load_or_create_demo_data_def load_transformed_def and_then_def np_load_def
        joblib_load_def absent_def)
  have whole: "(\<exists>a b c d. files w X_train_path = Inr a \<and> files w X_test_path = Inr b
        \<and> files w y_train_path = Inr c \<and> files w y_test_path = Inr d
        \<and> load_or_create_demo_data lib w g seed = Inr (a, b, c, d))
    \<or> load_or_create_demo_data lib w g seed = Inr (create_synthetic lib g seed)
    \<or> (\<exists>e. e \<noteq> FileNotFoundError \<and> load_or_create_demo_data lib w g seed = Inl e)"
  proof (cases "load_transformed w")
    case (Inl e)
    then show ?thesis by (simp add: load_or_create_demo_data_def)
  next
    case (Inr q)
    then show ?thesis
      using load_transformed_success [of w q]
      by (cases q) (simp add: load_or_create_demo_data_def)
  qed
  from whole part show ?thesis by blast
qed

theorem bundle_all_or_nothing_witness:
  "files (demo_world ((\<lambda>p. Inl FileNotFoundError)
         (X_train_path := Inr (Array [1, 2]), X_test_path := Inr (Array [3]))))
      X_train_path = Inr (Array [1, 2])
   \<and> absent (demo_world ((\<lambda>p. Inl FileNotFoundError)
         (X_train_path := Inr (Array [1, 2]), X_test_path := Inr (Array [3]))))
      y_train_path
   \<and> load_or_create_demo_data demo_lib
      (demo_world ((\<lambda>p. Inl FileNotFoundError)
         (X_train_path := Inr (Array [1, 2]), X_test_path := Inr (Array [3])))) 0 42
     = Inr (create_synthetic demo_lib 0 42)"
proof -
  let ?w = "demo_world ((\<lambda>p. Inl FileNotFoundError)
         (X_train_path := Inr (Array [1, 2]), X_test_path := Inr (Array [3])))"
  have distinct: "X_train_path \<noteq> X_test_path" "y_train_path \<noteq> X_test_path"
      "y_train_path \<noteq> X_train_path"
    by (simp_all add: X_train_path_def X_test_path_def y_train_path_def path_join_def)
  have a: "files ?w X_train_path = Inr (Array [1, 2])"
    using distinct by (simp add: demo_world_def)
  have b: "files ?w X_test_path = Inr (Array [3])"
    by (simp add: demo_world_def)
  have c: "absent ?w y_train_path"
    using distinct by (simp add: absent_def demo_world_def)
  from bundle_all_or_nothing [where w = ?w and a' = "Array [1, 2]" and b' = "Array [3]"
      and lib = demo_lib and g = 0 and seed = 42] a b c
  show ?thesis by simp
qed

subsection \<open>The synthetic fallback\<close>

text \<open>
  C4. For a library whose seeded calls are reproducible, the synthetic quadruple for a
  seed is the same whatever the state of the process-wide generator, and two calls of
  the loader that both fall back return the same quadruple for the same seed, whatever
  else the two storage states hold.
\<close>

theorem fallback_reproducible:
  assumes "seeded_calls_reproducible lib"
  shows "create_synthetic lib g seed = create_synthetic lib g' seed
       \<and> (first_failure w dataset_paths = Some FileNotFoundError
            \<and> first_failure w' dataset_paths = Some FileNotFoundError
          \<longrightarrow> load_or_create_demo_data lib w g seed = load_or_create_demo_data lib w' g' seed)"
proof -
  from assms have mk: "\<And>a. random_state a \<noteq> None \<Longrightarrow>
      make_classification lib a g = make_classification lib a g'"
    by (simp add: seeded_calls_reproducible_def)
  from assms have split: "\<And>X y a. split_random_state a \<noteq> None \<Longrightarrow>
      train_test_split lib X y a g = train_test_split lib X y a g'"
    by (simp add: seeded_calls_reproducible_def)
  have same: "create_synthetic lib g seed = create_synthetic lib g' seed"
    by (simp add: create_synthetic_def mk split)
  then show ?thesis by (simp add: first_failure_dataset)
qed

theorem fallback_reproducible_witness:
  "seeded_calls_reproducible demo_lib
   \<and> create_synthetic demo_lib 0 42 = create_synthetic demo_lib 7 42
   \<and> make_classification demo_lib
        \<lparr>n_samples = 2, n_features = 1, n_informative = 1, n_redundant = 0,
         n_classes = 2, weights = [], random_state = None\<rparr> 0
     \<noteq> make_classification demo_lib
        \<lparr>n_samples = 2, n_features = 1, n_informative = 1, n_redundant = 0,
         n_classes = 2, weights = [], random_state = None\<rparr> 7"
proof -
  have unseeded: "make_classification demo_lib
        \<lparr>n_samples = 2, n_features = 1, n_informative = 1, n_redundant = 0,
         n_classes = 2, weights = [], random_state = None\<rparr> 0
     \<noteq> make_classification demo_lib
        \<lparr>n_samples = 2, n_features = 1, n_informative = 1, n_redundant = 0,
         n_classes = 2, weights = [], random_state = None\<rparr> 7"
    by (simp add: demo_lib_def demo_make_classification_def)
  from fallback_reproducible [OF demo_seeded, of 0 42 7] demo_seeded unseeded
  show ?thesis by simp
qed



subsection \<open>Section 1: the incumbent\<close>

text \<open>
  C5. When the read of the best-model path fails with an \<^verbatim>\<open>Exception\<close> (an absent
  file is one), Section 1 fits the fresh default forest on the training partition and
  computes both baseline accuracies from the fitted model. When the path holds a
  trained model, the baseline accuracies are computed from that model as loaded, with
  no call of \<^verbatim>\<open>fit\<close>.
\<close>

theorem fit_guard:
  assumes "forest_attribute lib trained"
  shows "(files w best_model_path = Inl e \<and> isinstance_Exception e
            \<longrightarrow> section_1 lib w g =
                  and_then (load_or_create_demo_data lib w g 42) (\<lambda>d.
                  and_then (fit lib (RandomForestClassifier lib 42) (fst d) (fst (snd (snd d))))
                    (\<lambda>fitted. baseline lib d fitted)))
       \<and> (files w best_model_path = Inr m \<and> trained m
            \<longrightarrow> section_1 lib w g =
                  and_then (load_or_create_demo_data lib w g 42) (\<lambda>d. baseline lib d m))"
proof -
  from assms have fresh: "fit_if_fresh lib (RandomForestClassifier lib 42) X y
      = fit lib (RandomForestClassifier lib 42) X y" for X y
    by (simp add: forest_attribute_def fit_if_fresh_def)
  from assms have kept: "trained m \<Longrightarrow> fit_if_fresh lib m X y = Inr m" for X y
    by (auto simp add: forest_attribute_def fit_if_fresh_def)
  have a: "files w best_model_path = Inl e \<and> isinstance_Exception e
            \<longrightarrow> section_1 lib w g =
                  and_then (load_or_create_demo_data lib w g 42) (\<lambda>d.
                  and_then (fit lib (RandomForestClassifier lib 42) (fst d) (fst (snd (snd d))))
                    (\<lambda>fitted. baseline lib d fitted))"
    by (simp add: section_1_def safe_load_model_def joblib_load_def and_then_def fresh)
  have b: "files w best_model_path = Inr m \<and> trained m
            \<longrightarrow> section_1 lib w g =
                  and_then (load_or_create_demo_data lib w g 42) (\<lambda>d. baseline lib d m)"
    by (simp add: section_1_def safe_load_model_def joblib_load_def and_then_def kept)
  from a b show ?thesis by simp
qed

theorem fit_guard_witness:
  "forest_attribute demo_lib demo_trained
   \<and> section_1 demo_lib (demo_world (demo_files(best_model_path := Inl FileNotFoundError))) 0
     = Inr \<lparr>X_train = Array [1, 2, 3], X_test = Array [4, 5], y_train = Array [0, 1, 1],
            y_test = Array [0, 1], old_model = Forest 42 (Some 0), train_acc = 1 / 3,
            test_acc = 1 / 2\<rparr>
   \<and> section_1 demo_lib (demo_world (demo_files(best_model_path := Inr (Forest 7 (Some 1))))) 0
     = Inr \<lparr>X_train = Array [1, 2, 3], X_test = Array [4, 5], y_train = Array [0, 1, 1],
            y_test = Array [0, 1], old_model = Forest 7 (Some 1), train_acc = 2 / 3,
            test_acc = 1 / 2\<rparr>"
proof -
  let ?fresh = "demo_world (demo_files(best_model_path := Inl FileNotFoundError))"
  let ?stored = "demo_world (demo_files(best_model_path := Inr (Forest 7 (Some 1))))"
  have fresh: "files ?fresh best_model_path = Inl FileNotFoundError
      \<and> isinstance_Exception FileNotFoundError"
    by (simp add: demo_world_def)
  have stored: "files ?stored best_model_path = Inr (Forest 7 (Some 1))
      \<and> demo_trained (Forest 7 (Some 1))"
    by (simp add: demo_world_def)
  have a: "section_1 demo_lib ?fresh 0 =
          and_then (load_or_create_demo_data demo_lib ?fresh 0 42) (\<lambda>d.
          and_then (fit demo_lib (RandomForestClassifier demo_lib 42) (fst d) (fst (snd (snd d))))
            (\<lambda>fitted. baseline demo_lib d fitted))"
    using fit_guard [OF demo_forest_attribute, where w = ?fresh and g = 0
        and e = FileNotFoundError] fresh by blast
  have b: "section_1 demo_lib ?stored 0 =
          and_then (load_or_create_demo_data demo_lib ?stored 0 42)
            (\<lambda>d. baseline demo_lib d (Forest 7 (Some 1)))"
    using fit_guard [OF demo_forest_attribute, where w = ?stored and g = 0
        and m = "Forest 7 (Some 1)"] stored by blast
  have fitted: "fit demo_lib (RandomForestClassifier demo_lib 42) (Array [1, 2, 3])
      (Array [0, 1, 1]) = Inr (Forest 42 (Some 0))"
    by (simp add: demo_lib_def)
  have a': "section_1 demo_lib ?fresh 0
     = Inr \<lparr>X_train = Array [1, 2, 3], X_test = Array [4, 5], y_train = Array [0, 1, 1],
            y_test = Array [0, 1], old_model = Forest 42 (Some 0), train_acc = 1 / 3,
            test_acc = 1 / 2\<rparr>"
    unfolding a demo_files_loaded
    by (simp add: and_then_def baseline_def fitted demo_scores)
  have b': "section_1 demo_lib ?stored 0
     = Inr \<lparr>X_train = Array [1, 2, 3], X_test = Array [4, 5], y_train = Array [0, 1, 1],
            y_test = Array [0, 1], old_model = Forest 7 (Some 1), train_acc = 2 / 3,
            test_acc = 1 / 2\<rparr>"
    unfolding b demo_files_loaded
    by (simp add: and_then_def baseline_def demo_scores)
  from a' b' demo_forest_attribute show ?thesis by simp
qed

subsection \<open>Section 4: a search that raises\<close>



end
